theory Spec2Isabelle
  imports Complex_Main
begin

section \<open>Numbers, errors and the library calls the backend relies on\<close>

text \<open>
  The backend \<^verbatim>\<open>app.py\<close> computes with Python numbers (ints and 64-bit floats). Every
  finite float is a rational, so numbers are modelled as \<^typ>\<open>rat\<close>. The NumPy arithmetic
  behind the predicted values (\<^verbatim>\<open>np.average\<close> and the rounding of a \<^verbatim>\<open>np.float64\<close>) is
  modelled operation by operation in float64, each result rounded to the nearest double
  by \<open>fl64\<close> below. The crop score, the unit conversion of the wind speed and \<^verbatim>\<open>np.mean\<close> are
  computed exactly. The NaN that \<^verbatim>\<open>np.mean\<close> gives for an empty list is modelled explicitly.

  A raised exception is a value \<open>Inl e\<close> of the result type \<open>error + 'a\<close>.
\<close>

datatype error =
    KeyError string
  | IndexError
  | TypeError
  | ZeroDivisionError
  | NotFittedError
  | Raised string

text \<open>\<^verbatim>\<open>d.get(key, default)\<close> on a field that may be absent.\<close>

definition dict_get :: "'a option \<Rightarrow> 'a \<Rightarrow> 'a" where
  "dict_get field dflt = (case field of None \<Rightarrow> dflt | Some v \<Rightarrow> v)"

text \<open>\<^verbatim>\<open>d[key]\<close> on a field that may be absent.\<close>

definition dict_item :: "'a option \<Rightarrow> string \<Rightarrow> error + 'a" where
  "dict_item field key = (case field of None \<Rightarrow> Inl (KeyError key) | Some v \<Rightarrow> Inr v)"

text \<open>\<^verbatim>\<open>xs[i]\<close> for the constant, non-negative indices the code uses.\<close>

definition py_index :: "'a list \<Rightarrow> nat \<Rightarrow> error + 'a" where
  "py_index xs i = (if i < length xs then Inr (xs ! i) else Inl IndexError)"

text \<open>
  Rounding to the nearest integer, a tie going to the even neighbour (\<^verbatim>\<open>rint\<close>), and
  \<^verbatim>\<open>round(x, ndigits)\<close> on exact values: the nearest multiple of \<open>10^-ndigits\<close>, used for the
  crop score.
\<close>

definition round_half_even :: "rat \<Rightarrow> int" where
  "round_half_even y =
     (let f = \<lfloor>y\<rfloor>; d = y - of_int f
      in if d < 1 / 2 then f
         else if 1 / 2 < d then f + 1
         else if even f then f else f + 1)"

definition py_round :: "rat \<Rightarrow> nat \<Rightarrow> rat" where
  "py_round x ndigits = of_int (round_half_even (x * 10 ^ ndigits)) / 10 ^ ndigits"

text \<open>
  Float64. \<open>ilog2 x\<close> is the binary exponent of a positive \<open>x\<close>, the \<open>e\<close> with
  \<open>2^e \<le> x < 2^(e+1)\<close>. \<open>fl64 x\<close> is the double nearest to \<open>x\<close>, a tie going to the even
  significand: a multiple of \<open>2^q\<close> with 53 significant bits, \<open>q\<close> not below the exponent
  \<open>-1074\<close> of the subnormal numbers. Overflow is not represented: the model is that of the
  code for magnitudes below the largest double (about \<open>1.8e308\<close>), beyond which the code
  computes with \<^verbatim>\<open>inf\<close>. An arithmetic operation on doubles is the exact operation followed by
  \<open>fl64\<close>.
\<close>

function ilog2 :: "rat \<Rightarrow> int" where
  "ilog2 x =
     (if 2 \<le> x then ilog2 (x / 2) + 1
      else if 0 < x \<and> x < 1 then ilog2 (x * 2) - 1
      else 0)"
  by pat_completeness auto
termination
proof (relation "measure (\<lambda>x. nat (if 1 \<le> x then \<lfloor>x\<rfloor> else \<lceil>1 / x\<rceil> + 1))")
  show "wf (measure (\<lambda>x::rat. nat (if 1 \<le> x then \<lfloor>x\<rfloor> else \<lceil>1 / x\<rceil> + 1)))"
    by simp
next
  fix x :: rat
  assume x: "2 \<le> x"
  have "x / 2 \<le> x - 1" using x by simp
  then have "\<lfloor>x / 2\<rfloor> \<le> \<lfloor>x - 1\<rfloor>" by (rule floor_mono)
  then have "\<lfloor>x / 2\<rfloor> < \<lfloor>x\<rfloor>" by simp
  moreover have "0 < \<lfloor>x\<rfloor>" using x by simp
  ultimately show "(x / 2, x) \<in> measure (\<lambda>x. nat (if 1 \<le> x then \<lfloor>x\<rfloor> else \<lceil>1 / x\<rceil> + 1))"
    using x by simp
next
  fix x :: rat
  assume "\<not> 2 \<le> x" and x: "0 < x \<and> x < 1"
  have big: "1 < 1 / x" using x by simp
  then have c2: "2 \<le> \<lceil>1 / x\<rceil>" by (simp add: less_ceiling_iff)
  show "(x * 2, x) \<in> measure (\<lambda>x. nat (if 1 \<le> x then \<lfloor>x\<rfloor> else \<lceil>1 / x\<rceil> + 1))"
  proof (cases "1 \<le> x * 2")
    case True
    have "x * 2 < 2" using x by simp
    then have "\<lfloor>x * 2\<rfloor> < 2" by (simp add: floor_less_iff)
    with c2 have "nat \<lfloor>x * 2\<rfloor> < nat (\<lceil>1 / x\<rceil> + 1)" by linarith
    moreover have "\<not> 1 \<le> x" using x by simp
    ultimately show ?thesis using True by (simp del: floor_less_iff)
  next
    case False
    then have "2 < 1 / x" using x by (simp add: field_simps)
    then have "1 / x / 2 \<le> 1 / x - 1" by simp
    then have "\<lceil>1 / x / 2\<rceil> \<le> \<lceil>1 / x - 1\<rceil>" by (rule ceiling_mono)
    then have "\<lceil>1 / (x * 2)\<rceil> < \<lceil>1 / x\<rceil>" by (simp add: field_simps)
    with c2 have "nat (\<lceil>1 / (x * 2)\<rceil> + 1) < nat (\<lceil>1 / x\<rceil> + 1)" by linarith
    moreover have "\<not> 1 \<le> x" using x by simp
    ultimately show ?thesis using False by simp
  qed
qed

declare ilog2.simps [simp del]

definition fl64 :: "rat \<Rightarrow> rat" where
  "fl64 x =
     (if x = 0 then 0
      else let q = max (ilog2 \<bar>x\<bar> - 52) (- 1074)
           in if 0 \<le> q then of_int (round_half_even (x / 2 ^ nat q)) * 2 ^ nat q
              else of_int (round_half_even (x * 2 ^ nat (- q))) / 2 ^ nat (- q))"

definition fadd :: "rat \<Rightarrow> rat \<Rightarrow> rat" where
  "fadd a b = fl64 (a + b)"

definition fmul :: "rat \<Rightarrow> rat \<Rightarrow> rat" where
  "fmul a b = fl64 (a * b)"

definition fdiv :: "rat \<Rightarrow> rat \<Rightarrow> rat" where
  "fdiv a b = fl64 (a / b)"

text \<open>
  The sum of a float64 array, accumulated from the left, as NumPy does for fewer than
  eight elements.
\<close>

definition float_sum :: "rat list \<Rightarrow> rat" where
  "float_sum xs = foldl fadd 0 xs"

text \<open>
  \<^verbatim>\<open>round(x, decimals)\<close> on a \<^verbatim>\<open>np.float64\<close>: NumPy multiplies by \<open>10^decimals\<close>, rounds to the
  nearest integer with \<^verbatim>\<open>rint\<close> and divides again, each step in float64.
\<close>

definition np_round :: "rat \<Rightarrow> nat \<Rightarrow> rat" where
  "np_round x decimals =
     fdiv (of_int (round_half_even (fmul x (10 ^ decimals)))) (10 ^ decimals)"

text \<open>
  A NumPy float that may be NaN. \<^verbatim>\<open>np.mean\<close> of an empty list is NaN (the module silences the
  warning with \<^verbatim>\<open>warnings.filterwarnings('ignore')\<close>); every comparison with NaN is false.
\<close>

datatype npfloat = NaN | Finite rat

definition np_mean :: "rat list \<Rightarrow> npfloat" where
  "np_mean xs = (if xs = [] then NaN else Finite (sum_list xs / of_nat (length xs)))"

fun np_less :: "npfloat \<Rightarrow> rat \<Rightarrow> bool" where
  "np_less NaN b = False"
| "np_less (Finite a) b = (a < b)"

text \<open>
  \<^verbatim>\<open>np.average(a, weights=w)\<close> on one-dimensional lists. Both lists become float64 arrays;
  the result is \<^verbatim>\<open>np.multiply(a, wgt).sum() / wgt.sum()\<close>. It raises TypeError when the shapes
  differ and ZeroDivisionError when \<^verbatim>\<open>wgt.sum()\<close> is \<open>0.0\<close>.
\<close>

definition np_average :: "rat list \<Rightarrow> rat list \<Rightarrow> error + rat" where
  "np_average a w =
     (let a64 = map fl64 a; wgt = map fl64 w
      in if length a64 \<noteq> length wgt then Inl TypeError
         else let scl = float_sum wgt
              in if scl = 0 then Inl ZeroDivisionError
                 else Inr (fdiv (float_sum (map2 fmul a64 wgt)) scl))"


section \<open>Crop advisor: \<^verbatim>\<open>calculate_compatibility_score\<close> and \<^verbatim>\<open>get_crop_recommendations\<close>\<close>

record crop_requirement =
  temp_range :: "rat list"
  humidity_range :: "rat list"
  optimal_rainfall :: "rat list"

text \<open>
  One component of the score, the expression
  \<^verbatim>\<open>100 if r[0] <= v <= r[1] else max(0, 100 - abs(v - np.mean(r)) * k)\<close>,
  written twice in the source with \<open>k = 10\<close> (temperature) and \<open>k = 5\<close> (humidity).
  The chained comparison reads \<open>r[1]\<close> only when \<open>r[0] <= v\<close> holds. \<^verbatim>\<open>max(0, nan)\<close> is \<open>0\<close>,
  because \<^verbatim>\<open>max\<close> keeps its first argument unless the second compares greater.
\<close>

definition score_component :: "rat list \<Rightarrow> rat \<Rightarrow> rat \<Rightarrow> error + rat" where
  "score_component r v k =
     (case py_index r 0 of
        Inl e \<Rightarrow> Inl e
      | Inr lo \<Rightarrow>
          (case (if lo \<le> v
                 then (case py_index r 1 of Inl e \<Rightarrow> Inl e | Inr hi \<Rightarrow> Inr (v \<le> hi))
                 else Inr False) of
             Inl e \<Rightarrow> Inl e
           | Inr inside \<Rightarrow>
               if inside then Inr 100
               else (case np_mean r of
                       NaN \<Rightarrow> Inr 0
                     | Finite m \<Rightarrow> Inr (max 0 (100 - \<bar>v - m\<bar> * k)))))"

definition calculate_compatibility_score :: "rat \<Rightarrow> rat \<Rightarrow> crop_requirement \<Rightarrow> error + rat" where
  "calculate_compatibility_score temp humidity requirements =
     (case score_component (temp_range requirements) temp 10 of
        Inl e \<Rightarrow> Inl e
      | Inr temp_score \<Rightarrow>
          (case score_component (humidity_range requirements) humidity 5 of
             Inl e \<Rightarrow> Inl e
           | Inr humidity_score \<Rightarrow> Inr (py_round ((temp_score + humidity_score) / 2) 1)))"

text \<open>
  A recommendation. Three of the six messages are f-strings that embed the measured value;
  \<open>WithValue before v after\<close> stands for the text \<open>before\<close>, the value \<open>v\<close> as Python prints
  it, then \<open>after\<close> (the degree sign of the temperature messages is left out of \<open>after\<close>).
\<close>

datatype message = Plain string | WithValue string rat string

record recommendation =
  rec_type :: string
  parameter :: string
  rec_message :: message
  action :: string

record weather_snapshot =
  wd_temp :: "rat option"
  wd_humidity :: "rat option"

record crop_request =
  crop_type :: "string option"
  weather_data :: "weather_snapshot option"

record crop_response =
  resp_crop_type :: string
  recommendations :: "recommendation list"
  compatibility_score :: rat

definition crop_requirements :: "(string \<times> crop_requirement) list" where
  "crop_requirements =
     [(''rice'', \<lparr>temp_range = [20, 35], humidity_range = [70, 90],
                 optimal_rainfall = [1500, 2000]\<rparr>),
      (''wheat'', \<lparr>temp_range = [12, 25], humidity_range = [50, 70],
                  optimal_rainfall = [500, 750]\<rparr>),
      (''cotton'', \<lparr>temp_range = [21, 30], humidity_range = [60, 80],
                   optimal_rainfall = [600, 1200]\<rparr>)]"

text \<open>
  The two \<^verbatim>\<open>if\<close>/\<^verbatim>\<open>elif\<close>/\<^verbatim>\<open>else\<close> blocks of \<^verbatim>\<open>get_crop_recommendations\<close>, "Temperature
  analysis" and "Humidity analysis", each appending one recommendation. The upper bound of
  a range is read only when the value is not below the lower bound.
\<close>

definition temperature_analysis :: "rat \<Rightarrow> crop_requirement \<Rightarrow> error + recommendation" where
  "temperature_analysis current_temp requirements =
     (case py_index (temp_range requirements) 0 of
        Inl e \<Rightarrow> Inl e
      | Inr lo \<Rightarrow>
          if current_temp < lo then
            Inr \<lparr>rec_type = ''warning'', parameter = ''temperature'',
                 rec_message = WithValue ''Temperature ('' current_temp
                                 ''C) is below optimal range'',
                 action = ''Consider protective measures like mulching or row covers''\<rparr>
          else
            (case py_index (temp_range requirements) 1 of
               Inl e \<Rightarrow> Inl e
             | Inr hi \<Rightarrow>
                 if hi < current_temp then
                   Inr \<lparr>rec_type = ''critical'', parameter = ''temperature'',
                        rec_message = WithValue ''Temperature ('' current_temp
                                        ''C) is above optimal range'',
                        action = ''Increase irrigation frequency and consider shade netting''\<rparr>
                 else
                   Inr \<lparr>rec_type = ''success'', parameter = ''temperature'',
                        rec_message = Plain ''Temperature is within optimal range'',
                        action = ''Continue normal operations''\<rparr>))"

definition humidity_analysis :: "rat \<Rightarrow> crop_requirement \<Rightarrow> error + recommendation" where
  "humidity_analysis current_humidity requirements =
     (case py_index (humidity_range requirements) 0 of
        Inl e \<Rightarrow> Inl e
      | Inr lo \<Rightarrow>
          if current_humidity < lo then
            Inr \<lparr>rec_type = ''warning'', parameter = ''humidity'',
                 rec_message = WithValue ''Humidity ('' current_humidity ''%) is low'',
                 action = ''Increase irrigation frequency''\<rparr>
          else
            (case py_index (humidity_range requirements) 1 of
               Inl e \<Rightarrow> Inl e
             | Inr hi \<Rightarrow>
                 if hi < current_humidity then
                   Inr \<lparr>rec_type = ''warning'', parameter = ''humidity'',
                        rec_message = WithValue ''Humidity ('' current_humidity ''%) is high'',
                        action =
                          ''Monitor for fungal diseases and ensure proper ventilation''\<rparr>
                 else
                   Inr \<lparr>rec_type = ''success'', parameter = ''humidity'',
                        rec_message = Plain ''Humidity levels are optimal'',
                        action = ''Maintain current irrigation schedule''\<rparr>))"

text \<open>
  The endpoint. \<open>Inl e\<close> is the \<^verbatim>\<open>except Exception\<close> branch, the response
  \<^verbatim>\<open>{'success': False, 'error': str(e)}\<close> with status 500; \<open>Inr r\<close> is the success response.
  The default of \<^verbatim>\<open>crop_requirements.get(crop_type, crop_requirements['rice'])\<close> is looked up
  before the call, as Python evaluates arguments first.
\<close>

definition get_crop_recommendations :: "crop_request \<Rightarrow> error + crop_response" where
  "get_crop_recommendations data =
     (let crop = dict_get (crop_type data) ''rice'';
          wd = dict_get (weather_data data) \<lparr>wd_temp = None, wd_humidity = None\<rparr>
      in case dict_item (map_of crop_requirements ''rice'') ''rice'' of
           Inl e \<Rightarrow> Inl e
         | Inr rice \<Rightarrow>
             (let requirements = dict_get (map_of crop_requirements crop) rice;
                  current_temp = dict_get (wd_temp wd) 28;
                  current_humidity = dict_get (wd_humidity wd) 75
              in case temperature_analysis current_temp requirements of
                   Inl e \<Rightarrow> Inl e
                 | Inr t \<Rightarrow>
                     (case humidity_analysis current_humidity requirements of
                        Inl e \<Rightarrow> Inl e
                      | Inr h \<Rightarrow>
                          (case calculate_compatibility_score current_temp current_humidity
                                  requirements of
                             Inl e \<Rightarrow> Inl e
                           | Inr score \<Rightarrow>
                               Inr \<lparr>resp_crop_type = crop, recommendations = [t, h],
                                    compatibility_score = score\<rparr>))))"


section \<open>The model container \<^verbatim>\<open>WeatherMLModels\<close>\<close>

text \<open>
  The fitted scikit-learn objects are taken as parameters. A fitted regressor is its
  \<^verbatim>\<open>predict\<close> on one scaled row; a scaler is either the fresh \<^verbatim>\<open>StandardScaler()\<close>, whose
  \<^verbatim>\<open>transform\<close> raises NotFittedError, or a fitted one, given by its \<^verbatim>\<open>transform\<close>.
\<close>

type_synonym regressor = "rat list \<Rightarrow> rat"

datatype scaler = Unfitted | Fitted "rat list \<Rightarrow> rat list"

record ensemble =
  lr :: regressor
  rf :: regressor
  gb :: regressor
  weights :: "rat list"

text \<open>
  The two dictionaries \<^verbatim>\<open>self.scalers\<close> and \<^verbatim>\<open>self.models\<close>: one optional field per key
  (\<open>None\<close> is a key not yet stored).
\<close>

record store =
  scalers_features :: "scaler option"
  temp_ensemble :: "ensemble option"
  humidity_model :: "regressor option"
  rainfall_model :: "regressor option"
  aqi_model :: "regressor option"

record metrics =
  mae :: rat
  rmse :: rat
  accuracy :: rat

definition performance_metrics :: "(string \<times> metrics) list" where
  "performance_metrics =
     [(''temperature'', \<lparr>mae = 12 / 10, rmse = 18 / 10, accuracy = 945 / 10\<rparr>),
      (''humidity'', \<lparr>mae = 35 / 10, rmse = 42 / 10, accuracy = 928 / 10\<rparr>),
      (''rainfall'', \<lparr>mae = 21 / 10, rmse = 30 / 10, accuracy = 912 / 10\<rparr>),
      (''airQuality'', \<lparr>mae = 52 / 10, rmse = 68 / 10, accuracy = 895 / 10\<rparr>),
      (''ensemble'', \<lparr>mae = 18 / 10, rmse = 24 / 10, accuracy = 958 / 10\<rparr>)]"

definition transform :: "scaler \<Rightarrow> rat list \<Rightarrow> error + rat list" where
  "transform sc features =
     (case sc of Unfitted \<Rightarrow> Inl NotFittedError | Fitted t \<Rightarrow> Inr (t features))"

record temp_prediction =
  temp :: rat
  confidence :: rat

definition predict_temperature :: "store \<Rightarrow> rat list \<Rightarrow> error + temp_prediction" where
  "predict_temperature self features =
     (case dict_item (scalers_features self) ''features'' of
        Inl e \<Rightarrow> Inl e
      | Inr sc \<Rightarrow>
          (case transform sc features of
             Inl e \<Rightarrow> Inl e
           | Inr X_scaled \<Rightarrow>
               (case dict_item (temp_ensemble self) ''temp_ensemble'' of
                  Inl e \<Rightarrow> Inl e
                | Inr en \<Rightarrow>
                    (let predictions = [lr en X_scaled, rf en X_scaled, gb en X_scaled]
                     in case np_average predictions (weights en) of
                          Inl e \<Rightarrow> Inl e
                        | Inr final_prediction \<Rightarrow>
                            (case dict_item (map_of performance_metrics ''ensemble'')
                                    ''ensemble'' of
                               Inl e \<Rightarrow> Inl e
                             | Inr m \<Rightarrow>
                                 Inr \<lparr>temp = np_round final_prediction 2,
                                      confidence = accuracy m\<rparr>)))))"

record prediction_bundle =
  temperature :: temp_prediction
  humidity :: rat
  rainfall :: rat
  aqi :: rat

definition predict_all :: "store \<Rightarrow> rat list \<Rightarrow> error + prediction_bundle" where
  "predict_all self features =
     (case dict_item (scalers_features self) ''features'' of
        Inl e \<Rightarrow> Inl e
      | Inr sc \<Rightarrow>
          (case transform sc features of
             Inl e \<Rightarrow> Inl e
           | Inr X_scaled \<Rightarrow>
               (case predict_temperature self features of
                  Inl e \<Rightarrow> Inl e
                | Inr t \<Rightarrow>
                    (case dict_item (humidity_model self) ''humidity'' of
                       Inl e \<Rightarrow> Inl e
                     | Inr hm \<Rightarrow>
                         (case dict_item (rainfall_model self) ''rainfall'' of
                            Inl e \<Rightarrow> Inl e
                          | Inr rm \<Rightarrow>
                              (case dict_item (aqi_model self) ''aqi'' of
                                 Inl e \<Rightarrow> Inl e
                               | Inr am \<Rightarrow>
                                   Inr \<lparr>temperature = t,
                                        humidity = np_round (hm X_scaled) 2,
                                        rainfall = max 0 (np_round (rm X_scaled) 2),
                                        aqi = np_round (am X_scaled) 2\<rparr>))))))"

text \<open>
  Training. What each fallible call of \<^verbatim>\<open>train_models\<close> does in one run is a parameter:
  \<open>Inl e\<close> when the call raises \<open>e\<close>, \<open>Inr v\<close> when it returns the fitted object \<open>v\<close>.
\<close>

record training_run =
  run_create_training_data :: "error + unit"
  run_fit_scaler :: "error + (rat list \<Rightarrow> rat list)"
  run_fit_temp_lr :: "error + regressor"
  run_fit_temp_rf :: "error + regressor"
  run_fit_temp_gb :: "error + regressor"
  run_fit_humidity :: "error + regressor"
  run_fit_rainfall :: "error + regressor"
  run_fit_aqi :: "error + regressor"
  run_save_models :: "error + unit"

text \<open>
  \<^verbatim>\<open>train_models\<close> assigns into \<^verbatim>\<open>self.scalers\<close> and \<^verbatim>\<open>self.models\<close> as it goes, so it returns
  the container as it stands when the method returns or raises, with the outcome.
\<close>

definition train_models :: "training_run \<Rightarrow> store \<Rightarrow> store \<times> (error + unit)" where
  "train_models run self =
     (case run_create_training_data run of
        Inl e \<Rightarrow> (self, Inl e)
      | Inr _ \<Rightarrow>
     (let s1 = self\<lparr>scalers_features := Some Unfitted\<rparr> in
      case run_fit_scaler run of
        Inl e \<Rightarrow> (s1, Inl e)
      | Inr t \<Rightarrow>
     (let s2 = s1\<lparr>scalers_features := Some (Fitted t)\<rparr> in
      case run_fit_temp_lr run of
        Inl e \<Rightarrow> (s2, Inl e)
      | Inr temp_lr \<Rightarrow>
     (case run_fit_temp_rf run of
        Inl e \<Rightarrow> (s2, Inl e)
      | Inr temp_rf \<Rightarrow>
     (case run_fit_temp_gb run of
        Inl e \<Rightarrow> (s2, Inl e)
      | Inr temp_gb \<Rightarrow>
     (let s3 = s2\<lparr>temp_ensemble :=
                    Some \<lparr>lr = temp_lr, rf = temp_rf, gb = temp_gb,
                          weights = [2 / 10, 4 / 10, 4 / 10]\<rparr>\<rparr> in
      case run_fit_humidity run of
        Inl e \<Rightarrow> (s3, Inl e)
      | Inr humidity_m \<Rightarrow>
     (let s4 = s3\<lparr>humidity_model := Some humidity_m\<rparr> in
      case run_fit_rainfall run of
        Inl e \<Rightarrow> (s4, Inl e)
      | Inr rainfall_m \<Rightarrow>
     (let s5 = s4\<lparr>rainfall_model := Some rainfall_m\<rparr> in
      case run_fit_aqi run of
        Inl e \<Rightarrow> (s5, Inl e)
      | Inr aqi_m \<Rightarrow>
     (let s6 = s5\<lparr>aqi_model := Some aqi_m\<rparr> in
      case run_save_models run of
        Inl e \<Rightarrow> (s6, Inl e)
      | Inr _ \<Rightarrow> (s6, Inr ()))))))))))"

text \<open>
  The endpoint \<^verbatim>\<open>/api/retrain\<close> calls \<^verbatim>\<open>ml_models.train_models()\<close> on the global container and
  turns an exception into the failure response; the container stays as the call left it.
\<close>

datatype retrain_response = RetrainSuccess | RetrainFailure error

definition retrain_models :: "training_run \<Rightarrow> store \<Rightarrow> store \<times> retrain_response" where
  "retrain_models run ml_models =
     (case train_models run ml_models of
        (ml_models', Inl e) \<Rightarrow> (ml_models', RetrainFailure e)
      | (ml_models', Inr _) \<Rightarrow> (ml_models', RetrainSuccess))"


section \<open>Risk assessment: \<^verbatim>\<open>assess_risks\<close>\<close>

record risk =
  risk_type :: string
  severity :: string
  risk_message :: string
  recommendation_text :: string

definition heat_stress :: risk where
  "heat_stress =
     \<lparr>risk_type = ''heat_stress'', severity = ''high'',
      risk_message = ''Extreme heat predicted - crop stress likely'',
      recommendation_text =
        ''Increase irrigation, apply mulch, consider shade structures''\<rparr>"

definition drought :: risk where
  "drought =
     \<lparr>risk_type = ''drought'', severity = ''medium'',
      risk_message = ''Low rainfall predicted for coming week'',
      recommendation_text =
        ''Plan irrigation schedule and ensure water availability''\<rparr>"

definition air_quality :: risk where
  "air_quality =
     \<lparr>risk_type = ''air_quality'', severity = ''medium'',
      risk_message = ''Poor air quality detected'',
      recommendation_text = ''Monitor crop health for pollution stress symptoms''\<rparr>"

definition assess_risks :: "temp_prediction \<Rightarrow> rat list \<Rightarrow> prediction_bundle list \<Rightarrow> risk list" where
  "assess_risks temp_prediction current_features forecast_predictions =
     (let risks1 = (if 35 < temp temp_prediction then [heat_stress] else []);
          avg_rainfall = np_mean (map rainfall forecast_predictions);
          risks2 = (if np_less avg_rainfall 2 then risks1 @ [drought] else risks1);
          current_aqi = (if 3 < length current_features then current_features ! 3 else 50)
      in if 100 < current_aqi then risks2 @ [air_quality] else risks2)"


section \<open>The prediction endpoint: \<^verbatim>\<open>predict_weather\<close>\<close>

text \<open>
  An OpenWeatherMap record, as sent for the current weather and for every forecast entry:
  the nested dictionaries \<^verbatim>\<open>main\<close> and \<^verbatim>\<open>wind\<close>, each key possibly absent.
\<close>

record main_fields =
  main_temp :: "rat option"
  main_humidity :: "rat option"
  main_pressure :: "rat option"

record wind_fields =
  wind_speed :: "rat option"

record weather =
  main :: "main_fields option"
  wind :: "wind_fields option"

record forecast_data =
  forecast_list :: "weather list option"

record predict_request =
  current_weather :: "weather option"
  forecast :: "forecast_data option"

record predict_response =
  temperature_prediction :: temp_prediction
  forecast_predictions :: "prediction_bundle list"
  risks :: "risk list"

text \<open>
  The features of the current weather: chains of \<^verbatim>\<open>.get(key, default)\<close>, an absent \<^verbatim>\<open>main\<close>
  or \<^verbatim>\<open>wind\<close> standing for the empty dictionary.
\<close>

definition current_features_of :: "weather \<Rightarrow> rat list" where
  "current_features_of cw =
     (let m = dict_get (main cw) \<lparr>main_temp = None, main_humidity = None, main_pressure = None\<rparr>;
          w = dict_get (wind cw) \<lparr>wind_speed = None\<rparr>
      in [dict_get (main_temp m) 28,
          dict_get (main_humidity m) 75,
          dict_get (main_pressure m) 1013,
          dict_get (wind_speed w) 3 * (36 / 10)])"

text \<open>The features of a forecast entry: plain subscripts, a KeyError when a key is absent.\<close>

definition forecast_features_of :: "weather \<Rightarrow> error + rat list" where
  "forecast_features_of item =
     (case dict_item (main item) ''main'' of Inl e \<Rightarrow> Inl e | Inr m \<Rightarrow>
      case dict_item (main_temp m) ''temp'' of Inl e \<Rightarrow> Inl e | Inr t \<Rightarrow>
      case dict_item (main_humidity m) ''humidity'' of Inl e \<Rightarrow> Inl e | Inr h \<Rightarrow>
      case dict_item (main_pressure m) ''pressure'' of Inl e \<Rightarrow> Inl e | Inr p \<Rightarrow>
      case dict_item (wind item) ''wind'' of Inl e \<Rightarrow> Inl e | Inr w \<Rightarrow>
      case dict_item (wind_speed w) ''speed'' of Inl e \<Rightarrow> Inl e | Inr sp \<Rightarrow>
        Inr [t, h, p, sp * (36 / 10)])"

text \<open>
  The loop \<^verbatim>\<open>for i in range(0, min(56, len(forecast['list'])), 8)\<close>, from index \<open>i\<close> on, with
  the predictions appended so far.
\<close>

function forecast_loop ::
  "store \<Rightarrow> weather list \<Rightarrow> nat \<Rightarrow> prediction_bundle list \<Rightarrow> error + prediction_bundle list"
where
  "forecast_loop ml_models xs i acc =
     (if i < min 56 (length xs) then
        (case forecast_features_of (xs ! i) of
           Inl e \<Rightarrow> Inl e
         | Inr forecast_features \<Rightarrow>
             (case predict_all ml_models forecast_features of
                Inl e \<Rightarrow> Inl e
              | Inr predictions \<Rightarrow> forecast_loop ml_models xs (i + 8) (acc @ [predictions])))
      else Inr acc)"
  by pat_completeness auto
termination
  by (relation "measure (\<lambda>(ml_models, xs, i, acc). min 56 (length xs) - i)") auto

declare forecast_loop.simps [simp del]

definition predict_weather :: "store \<Rightarrow> predict_request \<Rightarrow> error + predict_response" where
  "predict_weather ml_models data =
     (let cw = dict_get (current_weather data) \<lparr>main = None, wind = None\<rparr>;
          fc = dict_get (forecast data) \<lparr>forecast_list = None\<rparr>;
          features = current_features_of cw
      in case predict_temperature ml_models features of
           Inl e \<Rightarrow> Inl e
         | Inr tp \<Rightarrow>
             (case (case forecast_list fc of
                      None \<Rightarrow> Inr []
                    | Some xs \<Rightarrow> forecast_loop ml_models xs 0 []) of
                Inl e \<Rightarrow> Inl e
              | Inr fps \<Rightarrow>
                  Inr \<lparr>temperature_prediction = tp,
                       forecast_predictions = fps,
                       risks = assess_risks tp features fps\<rparr>))"


section \<open>Concrete stores, requests and training runs\<close>

text \<open>
  Small fitted objects on which the functions above can be evaluated: regressors that
  return a constant or one of their inputs, and a scaler that leaves the features as they
  are.
\<close>

definition constant_regressor :: "rat \<Rightarrow> regressor" where
  "constant_regressor c X = c"

definition feature_regressor :: "nat \<Rightarrow> regressor" where
  "feature_regressor i X = X ! i"

definition identity_scaler :: scaler where
  "identity_scaler = Fitted (\<lambda>features. features)"

definition constant_store :: "rat \<Rightarrow> rat \<Rightarrow> rat \<Rightarrow> rat \<Rightarrow> store" where
  "constant_store a b c d =
     \<lparr>scalers_features = Some identity_scaler,
      temp_ensemble = Some \<lparr>lr = constant_regressor a, rf = constant_regressor b,
                            gb = constant_regressor c, weights = [2 / 10, 4 / 10, 4 / 10]\<rparr>,
      humidity_model = Some (constant_regressor d),
      rainfall_model = Some (constant_regressor d),
      aqi_model = Some (constant_regressor d)\<rparr>"

definition echo_store :: store where
  "echo_store =
     \<lparr>scalers_features = Some identity_scaler,
      temp_ensemble = Some \<lparr>lr = feature_regressor 0, rf = feature_regressor 0,
                            gb = feature_regressor 0, weights = [2 / 10, 4 / 10, 4 / 10]\<rparr>,
      humidity_model = Some (feature_regressor 1),
      rainfall_model = Some (feature_regressor 3),
      aqi_model = Some (feature_regressor 2)\<rparr>"

definition entry :: "rat \<Rightarrow> weather" where
  "entry t =
     \<lparr>main = Some \<lparr>main_temp = Some t, main_humidity = Some 60, main_pressure = Some 1000\<rparr>,
      wind = Some \<lparr>wind_speed = Some 5\<rparr>\<rparr>"

definition nine_entries :: "weather list" where
  "nine_entries =
     [entry 10, entry 11, entry 12, entry 13, entry 14, entry 15, entry 16, entry 17, entry 18]"

text \<open>A weather record that has no \<^verbatim>\<open>humidity\<close> under \<^verbatim>\<open>main\<close>.\<close>

definition record_without_humidity :: weather where
  "record_without_humidity =
     \<lparr>main = Some \<lparr>main_temp = Some 30, main_humidity = None, main_pressure = Some 1000\<rparr>,
      wind = Some \<lparr>wind_speed = Some 5\<rparr>\<rparr>"

text \<open>A training run in which fitting the rainfall model raises.\<close>

definition failing_run :: training_run where
  "failing_run =
     \<lparr>run_create_training_data = Inr (),
      run_fit_scaler = Inr (\<lambda>features. features),
      run_fit_temp_lr = Inr (constant_regressor 25),
      run_fit_temp_rf = Inr (constant_regressor 25),
      run_fit_temp_gb = Inr (constant_regressor 25),
      run_fit_humidity = Inr (constant_regressor 50),
      run_fit_rainfall = Inl (Raised ''rainfall fit''),
      run_fit_aqi = Inr (constant_regressor 50),
      run_save_models = Inr ()\<rparr>"


section \<open>Rounding\<close>

lemma floor_rat_divide_numeral:
  "\<lfloor>numeral a / numeral b :: rat\<rfloor> = numeral a div numeral b"
  using floor_divide_of_int_eq [of "numeral a" "numeral b", where ?'a = rat] by simp

lemma floor_rat_one_divide_numeral:
  "\<lfloor>1 / numeral b :: rat\<rfloor> = 1 div numeral b"
  using floor_divide_of_int_eq [of 1 "numeral b", where ?'a = rat] by simp

lemma floor_rat_minus_divide_numeral:
  "\<lfloor>- (numeral a / numeral b) :: rat\<rfloor> = - numeral a div numeral b"
  using floor_divide_of_int_eq [of "- numeral a" "numeral b", where ?'a = rat] by simp

lemma floor_rat_minus_one_divide_numeral:
  "\<lfloor>- (1 / numeral b) :: rat\<rfloor> = - 1 div numeral b"
  using floor_divide_of_int_eq [of "- 1" "numeral b", where ?'a = rat] by simp

lemmas round_defs =
  py_round_def round_half_even_def Let_def
  floor_rat_divide_numeral floor_rat_one_divide_numeral floor_rat_minus_divide_numeral
  floor_rat_minus_one_divide_numeral

lemma py_round_examples:
  "py_round (1 / 8) 2 = 12 / 100" "py_round (3 / 8) 2 = 38 / 100"
  "py_round (- (1 / 1000)) 2 = 0" "py_round (1245 / 100) 1 = 124 / 10"
  by (simp_all add: round_defs)

lemma round_half_even_lower: "\<lfloor>y\<rfloor> \<le> round_half_even y"
  by (simp add: round_half_even_def Let_def)

lemma round_half_even_upper: "round_half_even y \<le> \<lceil>y\<rceil>"
proof (cases "y = of_int \<lfloor>y\<rfloor>")
  case True
  then have "y - of_int \<lfloor>y\<rfloor> = 0" by simp
  then have "round_half_even y = \<lfloor>y\<rfloor>"
    by (simp add: round_half_even_def Let_def)
  then show ?thesis by (simp add: floor_le_ceiling)
next
  case False
  then have "\<lceil>y\<rceil> = \<lfloor>y\<rfloor> + 1"
    by (metis ceiling_altdef)
  moreover have "round_half_even y \<le> \<lfloor>y\<rfloor> + 1"
    by (simp add: round_half_even_def Let_def)
  ultimately show ?thesis by simp
qed

lemma py_round_bounds:
  assumes "0 \<le> x" "x \<le> of_int n"
  shows "0 \<le> py_round x d \<and> py_round x d \<le> of_int n"
proof -
  let ?p = "(10::rat) ^ d"
  have p: "0 < ?p" by simp
  have "0 \<le> x * ?p" using assms p by simp
  then have "0 \<le> \<lfloor>x * ?p\<rfloor>" by simp
  then have lo: "0 \<le> round_half_even (x * ?p)"
    using round_half_even_lower [of "x * ?p"] by linarith
  have "x * ?p \<le> of_int n * ?p" using assms p by simp
  also have "\<dots> = of_int (n * 10 ^ d)" by simp
  finally have "\<lceil>x * ?p\<rceil> \<le> n * 10 ^ d" by (simp only: ceiling_le)
  then have hi: "round_half_even (x * ?p) \<le> n * 10 ^ d"
    using round_half_even_upper [of "x * ?p"] by linarith
  have "py_round x d \<le> of_int (n * 10 ^ d) / ?p"
    unfolding py_round_def using hi p by (simp add: divide_right_mono del: of_int_mult of_int_power)
  then have "py_round x d \<le> of_int n" by simp
  moreover have "0 \<le> py_round x d"
    unfolding py_round_def using lo p by simp
  ultimately show ?thesis by simp
qed

section \<open>Temperature ensemble and the prediction bundle\<close>

lemmas float_defs =
  fl64_def fadd_def fmul_def fdiv_def float_sum_def np_round_def ilog2.simps

lemmas predict_defs =
  predict_temperature_def predict_all_def transform_def np_average_def performance_metrics_def
  dict_item_def

lemmas example_defs =
  constant_store_def constant_regressor_def feature_regressor_def identity_scaler_def
  echo_store_def

text \<open>
  The doubles of the literals \<^verbatim>\<open>0.2\<close> and \<^verbatim>\<open>0.4\<close>, and their float64 sum, which is \<open>1.0\<close>.
\<close>

lemma fl64_reference_weights:
  "fl64 (2 / 10) = 3602879701896397 / 18014398509481984"
  "fl64 (4 / 10) = 3602879701896397 / 9007199254740992"
  by (simp_all add: float_defs round_defs)

lemma float_sum_reference_weights:
  "float_sum [fl64 (2 / 10), fl64 (4 / 10), fl64 (4 / 10)] = 1"
  by (simp add: float_defs round_defs)

text \<open>
  Float64 is visible in the results. Three predictions of \<open>3.625\<close> average to
  \<open>3.6250000000000004\<close>, which rounds to \<open>3.63\<close>, where exact arithmetic would give \<open>3.625\<close>
  and \<open>3.62\<close>; the double \<open>2.675\<close> rounds to \<open>2.68\<close>, because \<open>2.675 * 100\<close> is \<open>267.5\<close> in
  float64.
\<close>

lemma np_average_float_examples:
  "np_average [29 / 8, 29 / 8, 29 / 8] [2 / 10, 4 / 10, 4 / 10]
     = Inr (8162774324609025 / 2251799813685248)"
  "np_round (8162774324609025 / 2251799813685248) 2 = fl64 (363 / 100)"
  "np_round (29 / 8) 2 = fl64 (362 / 100)"
  "np_round (fl64 (2675 / 1000)) 2 = fl64 (268 / 100)"
  by (simp_all add: np_average_def float_defs round_defs)

text \<open>
  A training run that returns leaves the reference weights in the temperature ensemble.
\<close>

lemma train_models_reference_weights:
  assumes "train_models run s = (s', Inr u)"
  shows "\<exists>t en. scalers_features s' = Some (Fitted t) \<and> temp_ensemble s' = Some en
           \<and> weights en = [2 / 10, 4 / 10, 4 / 10]"
  using assms by (auto simp: train_models_def Let_def split: sum.splits)

lemma predict_temperature_returns:
  assumes "scalers_features s = Some (Fitted t)"
      and "temp_ensemble s = Some en"
      and "length (weights en) = 3"
      and "float_sum (map fl64 (weights en)) \<noteq> 0"
  shows "\<exists>tp. predict_temperature s features = Inr tp"
  using assms
  by (simp add: predict_temperature_def dict_item_def transform_def np_average_def
      performance_metrics_def Let_def)

text \<open>
  Claim C1, as amended. For a container with a fitted scaler and the reference weights
  \<open>[0.2, 0.4, 0.4]\<close>, and predictions of magnitude at most \<open>1e300\<close> (no float64 overflow),
  \<^verbatim>\<open>predict_temperature\<close> returns the weighted average of the linear, forest and boosted
  predictions as \<^verbatim>\<open>np.average\<close> computes it in float64 (the sum of the three products, taken
  from the left, divided by the sum \<open>1.0\<close> of the weights), \<^emph>\<open>rounded to two decimal places\<close>
  by \<^verbatim>\<open>round\<close>, together with the static ensemble accuracy \<open>95.8\<close> as confidence (a constant
  of \<^verbatim>\<open>performance_metrics\<close>, whatever the predictions are). When the three predictions are
  \<open>10\<close>, \<open>20\<close> and \<open>30\<close> the value is \<open>22\<close>.
\<close>

theorem predict_temperature_rounds_weighted_average:
  assumes "scalers_features s = Some (Fitted t)"
      and "temp_ensemble s = Some en"
      and "weights en = [2 / 10, 4 / 10, 4 / 10]"
      and "\<bar>lr en (t features)\<bar> \<le> 10 ^ 300"
      and "\<bar>rf en (t features)\<bar> \<le> 10 ^ 300"
      and "\<bar>gb en (t features)\<bar> \<le> 10 ^ 300"
  shows "predict_temperature s features =
           Inr \<lparr>temp = np_round
                         (fdiv (float_sum [fmul (fl64 (lr en (t features))) (fl64 (2 / 10)),
                                           fmul (fl64 (rf en (t features))) (fl64 (4 / 10)),
                                           fmul (fl64 (gb en (t features))) (fl64 (4 / 10))])
                               (float_sum [fl64 (2 / 10), fl64 (4 / 10), fl64 (4 / 10)])) 2,
                confidence = 958 / 10\<rparr>
         \<and> float_sum [fl64 (2 / 10), fl64 (4 / 10), fl64 (4 / 10)] = 1
         \<and> (lr en (t features) = 10 \<and> rf en (t features) = 20 \<and> gb en (t features) = 30
              \<longrightarrow> predict_temperature s features = Inr \<lparr>temp = 22, confidence = 958 / 10\<rparr>)"
proof -
  let ?products = "[fmul (fl64 (lr en (t features))) (fl64 (2 / 10)),
                    fmul (fl64 (rf en (t features))) (fl64 (4 / 10)),
                    fmul (fl64 (gb en (t features))) (fl64 (4 / 10))]"
  let ?scl = "float_sum [fl64 (2 / 10), fl64 (4 / 10), fl64 (4 / 10)]"
  have scl: "?scl = 1" by (rule float_sum_reference_weights)
  have avg: "np_average [lr en (t features), rf en (t features), gb en (t features)] (weights en)
        = Inr (fdiv (float_sum ?products) ?scl)"
    using scl by (simp add: np_average_def assms(3) Let_def)
  have first: "predict_temperature s features =
           Inr \<lparr>temp = np_round (fdiv (float_sum ?products) ?scl) 2, confidence = 958 / 10\<rparr>"
    by (simp only: predict_temperature_def dict_item_def transform_def assms(1,2) avg
        performance_metrics_def Let_def option.case scaler.case sum.case map_of.simps
        fst_conv snd_conv)
       (simp add: performance_metrics_def)
  have "np_round (fdiv (float_sum [fmul (fl64 10) (fl64 (2 / 10)),
                                   fmul (fl64 20) (fl64 (4 / 10)),
                                   fmul (fl64 30) (fl64 (4 / 10))]) 1) 2 = 22"
    by (simp add: float_defs round_defs)
  with first scl show ?thesis by simp
qed

theorem predict_temperature_rounds_weighted_average_witness:
  "scalers_features (constant_store 10 20 30 0) = Some (Fitted (\<lambda>features. features))
   \<and> temp_ensemble (constant_store 10 20 30 0) =
       Some \<lparr>lr = constant_regressor 10, rf = constant_regressor 20,
             gb = constant_regressor 30, weights = [2 / 10, 4 / 10, 4 / 10]\<rparr>
   \<and> \<bar>10 :: rat\<bar> \<le> 10 ^ 300 \<and> \<bar>20 :: rat\<bar> \<le> 10 ^ 300 \<and> \<bar>30 :: rat\<bar> \<le> 10 ^ 300
   \<and> predict_temperature (constant_store 10 20 30 0) [28, 75, 1013, 108 / 10]
       = Inr \<lparr>temp = 22, confidence = 958 / 10\<rparr>"
proof -
  let ?en = "\<lparr>lr = constant_regressor 10, rf = constant_regressor 20,
              gb = constant_regressor 30, weights = [2 / 10, 4 / 10, 4 / 10]\<rparr>"
  have sc: "scalers_features (constant_store 10 20 30 0) = Some (Fitted (\<lambda>features. features))"
    by (simp add: example_defs)
  have en: "temp_ensemble (constant_store 10 20 30 0) = Some ?en"
    by (simp add: example_defs)
  have w: "weights ?en = [2 / 10, 4 / 10, 4 / 10]" by simp
  have b: "\<bar>lr ?en [28, 75, 1013, 108 / 10]\<bar> \<le> 10 ^ 300"
    "\<bar>rf ?en [28, 75, 1013, 108 / 10]\<bar> \<le> 10 ^ 300"
    "\<bar>gb ?en [28, 75, 1013, 108 / 10]\<bar> \<le> 10 ^ 300"
    by (simp_all add: constant_regressor_def)
  have p: "lr ?en [28, 75, 1013, 108 / 10] = 10 \<and> rf ?en [28, 75, 1013, 108 / 10] = 20
           \<and> gb ?en [28, 75, 1013, 108 / 10] = 30"
    by (simp add: constant_regressor_def)
  from predict_temperature_rounds_weighted_average [OF sc en w b] p
  have "predict_temperature (constant_store 10 20 30 0) [28, 75, 1013, 108 / 10]
       = Inr \<lparr>temp = 22, confidence = 958 / 10\<rparr>"
    by blast
  with sc en show ?thesis by simp
qed

text \<open>
  Claim C1 as stated says that the returned value is the weighted average itself. It is
  not: with predictions \<open>28\<close>, \<open>28\<close> and \<open>28.01\<close> the weighted average is \<open>28.004\<close> (its
  double, as \<^verbatim>\<open>np.average\<close> returns it) and the value returned is \<open>28\<close>, because of
  \<^verbatim>\<open>round(final_prediction, 2)\<close>.
\<close>

theorem predict_temperature_not_exact_average:
  "predict_temperature (constant_store 28 28 (2801 / 100) 0) [28, 75, 1013, 108 / 10]
     = Inr \<lparr>temp = 28, confidence = 958 / 10\<rparr>
   \<and> np_average [28, 28, 2801 / 100] [2 / 10, 4 / 10, 4 / 10]
       = Inr (7882425247805211 / 281474976710656)
   \<and> (28::rat) \<noteq> 7882425247805211 / 281474976710656
   \<and> (28::rat) \<noteq> (28 * (2 / 10) + 28 * (4 / 10) + 2801 / 100 * (4 / 10))
                       / (2 / 10 + 4 / 10 + 4 / 10)"
  by (simp add: predict_defs example_defs float_defs round_defs)

text \<open>
  Claim C4. Whenever \<^verbatim>\<open>predict_all\<close> returns a bundle, its rainfall is at least \<open>0\<close>, for
  every container and every feature vector; and it does return a bundle, with the rainfall
  \<open>max(0, round(prediction, 2))\<close>, when the container holds a fitted scaler, the three
  single regressors and a temperature ensemble with three weights of non-zero sum.
\<close>

theorem predict_all_rainfall_nonneg:
  "(\<forall>b. predict_all s features = Inr b \<longrightarrow> 0 \<le> rainfall b)
   \<and> (scalers_features s = Some (Fitted t) \<and> temp_ensemble s = Some en
        \<and> length (weights en) = 3 \<and> float_sum (map fl64 (weights en)) \<noteq> 0
        \<and> humidity_model s = Some hm \<and> rainfall_model s = Some rm \<and> aqi_model s = Some am
      \<longrightarrow> (\<exists>tp. predict_all s features =
                  Inr \<lparr>temperature = tp,
                       humidity = np_round (hm (t features)) 2,
                       rainfall = max 0 (np_round (rm (t features)) 2),
                       aqi = np_round (am (t features)) 2\<rparr>))"
proof (intro conjI allI impI)
  fix b
  assume "predict_all s features = Inr b"
  then obtain x where "rainfall b = max 0 x"
    by (auto simp: predict_all_def split: sum.splits)
  then show "0 \<le> rainfall b" by simp
next
  assume a: "scalers_features s = Some (Fitted t) \<and> temp_ensemble s = Some en
        \<and> length (weights en) = 3 \<and> float_sum (map fl64 (weights en)) \<noteq> 0
        \<and> humidity_model s = Some hm \<and> rainfall_model s = Some rm \<and> aqi_model s = Some am"
  then obtain tp where "predict_temperature s features = Inr tp"
    using predict_temperature_returns [of s t en features] by blast
  with a show "\<exists>tp. predict_all s features =
                  Inr \<lparr>temperature = tp,
                       humidity = np_round (hm (t features)) 2,
                       rainfall = max 0 (np_round (rm (t features)) 2),
                       aqi = np_round (am (t features)) 2\<rparr>"
    by (simp add: predict_all_def dict_item_def transform_def)
qed

theorem predict_all_rainfall_nonneg_witness:
  "predict_all (constant_store 10 20 30 (- 3)) [28, 75, 1013, 108 / 10] =
     Inr \<lparr>temperature = \<lparr>temp = 22, confidence = 958 / 10\<rparr>,
          humidity = - 3, rainfall = 0, aqi = - 3\<rparr>
   \<and> (0::rat) \<le> rainfall \<lparr>temperature = \<lparr>temp = 22, confidence = 958 / 10\<rparr>,
          humidity = - 3, rainfall = 0, aqi = - 3\<rparr>"
proof -
  have ev: "predict_all (constant_store 10 20 30 (- 3)) [28, 75, 1013, 108 / 10] =
     Inr \<lparr>temperature = \<lparr>temp = 22, confidence = 958 / 10\<rparr>,
          humidity = - 3, rainfall = 0, aqi = - 3\<rparr>"
    by (simp add: predict_defs example_defs float_defs round_defs)
  from predict_all_rainfall_nonneg
    [of "constant_store 10 20 30 (- 3)" "[28, 75, 1013, 108 / 10]"] ev
  have "(0::rat) \<le> rainfall \<lparr>temperature = \<lparr>temp = 22, confidence = 958 / 10\<rparr>,
          humidity = - 3, rainfall = 0, aqi = - 3\<rparr>"
    by blast
  with ev show ?thesis by (rule_tac conjI)
qed

section \<open>Retraining\<close>

text \<open>
  Claim C2, as amended. When \<^verbatim>\<open>/api/retrain\<close> fails, the container is left as
  \<^verbatim>\<open>train_models\<close> had assigned it up to the call that raised: unchanged only when generating
  the training data raised; otherwise the scaler is replaced (by an unfitted one when its
  fit raised), then the temperature ensemble, the humidity, the rainfall and the
  air-quality model, in this order, and every entry not yet assigned keeps its previous
  value. The entries are assigned in place, one at a time.
\<close>

theorem retrain_failure_keeps_partial_assignments:
  assumes "retrain_models run s = (s', RetrainFailure e)"
  shows
    "(run_create_training_data run = Inl e \<and> s' = s)
     \<or> (run_fit_scaler run = Inl e \<and> s' = s\<lparr>scalers_features := Some Unfitted\<rparr>)
     \<or> (\<exists>t. run_fit_scaler run = Inr t
            \<and> (run_fit_temp_lr run = Inl e \<or> run_fit_temp_rf run = Inl e
                 \<or> run_fit_temp_gb run = Inl e)
            \<and> s' = s\<lparr>scalers_features := Some (Fitted t)\<rparr>)
     \<or> (\<exists>t en. run_fit_scaler run = Inr t \<and> run_fit_temp_lr run = Inr (lr en) \<and> run_fit_temp_rf run = Inr (rf en)
            \<and> run_fit_temp_gb run = Inr (gb en) \<and> weights en = [2 / 10, 4 / 10, 4 / 10]
            \<and> run_fit_humidity run = Inl e
            \<and> s' = s\<lparr>scalers_features := Some (Fitted t), temp_ensemble := Some en\<rparr>)
     \<or> (\<exists>t en hm. run_fit_scaler run = Inr t \<and> run_fit_temp_lr run = Inr (lr en) \<and> run_fit_temp_rf run = Inr (rf en)
            \<and> run_fit_temp_gb run = Inr (gb en) \<and> weights en = [2 / 10, 4 / 10, 4 / 10]
            \<and> run_fit_humidity run = Inr hm \<and> run_fit_rainfall run = Inl e
            \<and> s' = s\<lparr>scalers_features := Some (Fitted t), temp_ensemble := Some en,
                     humidity_model := Some hm\<rparr>)
     \<or> (\<exists>t en hm rm. run_fit_scaler run = Inr t \<and> run_fit_temp_lr run = Inr (lr en) \<and> run_fit_temp_rf run = Inr (rf en)
            \<and> run_fit_temp_gb run = Inr (gb en) \<and> weights en = [2 / 10, 4 / 10, 4 / 10]
            \<and> run_fit_humidity run = Inr hm \<and> run_fit_rainfall run = Inr rm
            \<and> run_fit_aqi run = Inl e
            \<and> s' = s\<lparr>scalers_features := Some (Fitted t), temp_ensemble := Some en,
                     humidity_model := Some hm, rainfall_model := Some rm\<rparr>)
     \<or> (\<exists>t en hm rm am. run_fit_scaler run = Inr t \<and> run_fit_temp_lr run = Inr (lr en) \<and> run_fit_temp_rf run = Inr (rf en)
            \<and> run_fit_temp_gb run = Inr (gb en) \<and> weights en = [2 / 10, 4 / 10, 4 / 10]
            \<and> run_fit_humidity run = Inr hm \<and> run_fit_rainfall run = Inr rm
            \<and> run_fit_aqi run = Inr am \<and> run_save_models run = Inl e
            \<and> s' = s\<lparr>scalers_features := Some (Fitted t), temp_ensemble := Some en,
                     humidity_model := Some hm, rainfall_model := Some rm,
                     aqi_model := Some am\<rparr>)"
proof -
  from assms have tm: "train_models run s = (s', Inl e)"
    by (auto simp: retrain_models_def split: prod.splits sum.splits)
  show ?thesis
  proof (cases "run_create_training_data run")
    case (Inl e1)
    with tm show ?thesis by (simp add: train_models_def)
  next
    case data: (Inr u)
    show ?thesis
    proof (cases "run_fit_scaler run")
      case (Inl e2)
      with tm data show ?thesis by (simp add: train_models_def)
    next
      case sc: (Inr t)
      show ?thesis
      proof (cases "\<exists>a b c. run_fit_temp_lr run = Inr a \<and> run_fit_temp_rf run = Inr b
                       \<and> run_fit_temp_gb run = Inr c")
        case False
        with tm data sc show ?thesis
          by (auto simp: train_models_def Let_def split: sum.splits)
      next
        case True
        then obtain a b c where abc: "run_fit_temp_lr run = Inr a" "run_fit_temp_rf run = Inr b"
          "run_fit_temp_gb run = Inr c" by blast
        define en where "en = \<lparr>lr = a, rf = b, gb = c, weights = [2 / 10, 4 / 10, 4 / 10]\<rparr>"
        have en: "run_fit_temp_lr run = Inr (lr en)" "run_fit_temp_rf run = Inr (rf en)"
          "run_fit_temp_gb run = Inr (gb en)" "weights en = [2 / 10, 4 / 10, 4 / 10]"
          by (simp_all add: en_def abc)
        show ?thesis
        proof (cases "run_fit_humidity run")
          case (Inl e4)
          with tm data sc abc have "e4 = e"
            and "s' = s\<lparr>scalers_features := Some (Fitted t), temp_ensemble := Some en\<rparr>"
            by (simp_all add: train_models_def Let_def en_def)
          with Inl sc en show ?thesis by blast
        next
          case hm: (Inr hm)
          show ?thesis
          proof (cases "run_fit_rainfall run")
            case (Inl e5)
            with tm data sc abc hm have "e5 = e"
              and "s' = s\<lparr>scalers_features := Some (Fitted t), temp_ensemble := Some en,
                         humidity_model := Some hm\<rparr>"
              by (simp_all add: train_models_def Let_def en_def)
            with Inl sc en hm show ?thesis by blast
          next
            case rm: (Inr rm)
            show ?thesis
            proof (cases "run_fit_aqi run")
              case (Inl e6)
              with tm data sc abc hm rm have "e6 = e"
                and "s' = s\<lparr>scalers_features := Some (Fitted t), temp_ensemble := Some en,
                           humidity_model := Some hm, rainfall_model := Some rm\<rparr>"
                by (simp_all add: train_models_def Let_def en_def)
              with Inl sc en hm rm show ?thesis by blast
            next
              case am: (Inr am)
              show ?thesis
              proof (cases "run_save_models run")
                case (Inl e7)
                with tm data sc abc hm rm am have "e7 = e"
                  and "s' = s\<lparr>scalers_features := Some (Fitted t), temp_ensemble := Some en,
                             humidity_model := Some hm, rainfall_model := Some rm,
                             aqi_model := Some am\<rparr>"
                  by (simp_all add: train_models_def Let_def en_def)
                with Inl sc en hm rm am show ?thesis by blast
              next
                case (Inr u')
                with tm data sc abc hm rm am show ?thesis
                  by (simp add: train_models_def Let_def)
              qed
            qed
          qed
        qed
      qed
    qed
  qed
qed

theorem retrain_failure_keeps_partial_assignments_witness:
  "retrain_models failing_run (constant_store 20 20 20 10) =
     (constant_store 20 20 20 10
        \<lparr>scalers_features := Some (Fitted (\<lambda>features. features)),
         temp_ensemble := Some \<lparr>lr = constant_regressor 25, rf = constant_regressor 25,
                                gb = constant_regressor 25,
                                weights = [2 / 10, 4 / 10, 4 / 10]\<rparr>,
         humidity_model := Some (constant_regressor 50)\<rparr>,
      RetrainFailure (Raised ''rainfall fit''))
   \<and> run_fit_rainfall failing_run = Inl (Raised ''rainfall fit'')"
proof -
  have r: "retrain_models failing_run (constant_store 20 20 20 10) =
     (constant_store 20 20 20 10
        \<lparr>scalers_features := Some (Fitted (\<lambda>features. features)),
         temp_ensemble := Some \<lparr>lr = constant_regressor 25, rf = constant_regressor 25,
                                gb = constant_regressor 25,
                                weights = [2 / 10, 4 / 10, 4 / 10]\<rparr>,
         humidity_model := Some (constant_regressor 50)\<rparr>,
      RetrainFailure (Raised ''rainfall fit''))"
    by (simp add: retrain_models_def train_models_def failing_run_def)
  show ?thesis
    using r retrain_failure_keeps_partial_assignments [OF r]
    by (simp add: failing_run_def)
qed

text \<open>
  Claim C2 as stated says that a failed retraining leaves the previous store in effect.
  It does not: when fitting the rainfall model raises, the scaler, the temperature ensemble
  and the humidity model are already the new ones, and the temperature predicted for the
  same features changes from \<open>20\<close> to \<open>25\<close>, while the rainfall model is still the old one.
\<close>

theorem retrain_failure_changes_predictions:
  "snd (retrain_models failing_run (constant_store 20 20 20 10)) = RetrainFailure (Raised ''rainfall fit'')
   \<and> predict_temperature (constant_store 20 20 20 10) [28, 75, 1013, 108 / 10]
       = Inr \<lparr>temp = 20, confidence = 958 / 10\<rparr>
   \<and> predict_temperature (fst (retrain_models failing_run (constant_store 20 20 20 10)))
         [28, 75, 1013, 108 / 10]
       = Inr \<lparr>temp = 25, confidence = 958 / 10\<rparr>
   \<and> rainfall_model (fst (retrain_models failing_run (constant_store 20 20 20 10)))
       = rainfall_model (constant_store 20 20 20 10)"
  by (simp add: retrain_models_def train_models_def failing_run_def predict_defs example_defs
      float_defs round_defs)

section \<open>Risk assessment\<close>

lemma np_mean_empty: "np_mean [] = NaN" "\<not> np_less (np_mean []) 2"
  by (simp_all add: np_mean_def)

text \<open>
  Claim C3. With a predicted temperature of \<open>36\<close>, no forecast predictions and \<open>50\<close> in
  slot 4 of the current features, \<^verbatim>\<open>assess_risks\<close> returns exactly one alert, heat stress with
  severity high. The drought rule does not fire: the mean of the empty list is NaN, and
  \<^verbatim>\<open>nan < 2\<close> is false.
\<close>

theorem assess_risks_heat_only:
  assumes "temp tp = 36" and "3 < length fs" and "fs ! 3 = 50"
  shows "assess_risks tp fs [] =
           [\<lparr>risk_type = ''heat_stress'', severity = ''high'',
             risk_message = ''Extreme heat predicted - crop stress likely'',
             recommendation_text =
               ''Increase irrigation, apply mulch, consider shade structures''\<rparr>]
         \<and> drought \<notin> set (assess_risks tp fs [])"
  using assms
  by (simp add: assess_risks_def np_mean_def heat_stress_def drought_def)

theorem assess_risks_heat_only_witness:
  "temp \<lparr>temp = 36, confidence = 958 / 10\<rparr> = 36
   \<and> 3 < length [28, 75, 1013, 50 :: rat]
   \<and> [28, 75, 1013, 50 :: rat] ! 3 = 50
   \<and> assess_risks \<lparr>temp = 36, confidence = 958 / 10\<rparr> [28, 75, 1013, 50] [] = [heat_stress]
   \<and> length (assess_risks \<lparr>temp = 36, confidence = 958 / 10\<rparr> [28, 75, 1013, 50] []) = 1"
  using assess_risks_heat_only [of "\<lparr>temp = 36, confidence = 958 / 10\<rparr>" "[28, 75, 1013, 50]"]
  by (simp add: heat_stress_def)

section \<open>Feature extraction and forecast sampling\<close>

text \<open>
  The feature vector of the current weather always has its four slots: each of
  temperature, humidity and pressure is the supplied value, or the default \<open>28\<close>, \<open>75\<close>,
  \<open>1013\<close> when the field (or the whole \<^verbatim>\<open>main\<close> dictionary) is absent; the wind slot is the
  supplied speed, or the default \<open>3\<close>, times \<open>3.6\<close>. With every field absent the vector is
  \<open>[28, 75, 1013, 10.8]\<close>, and that is the vector \<^verbatim>\<open>predict_weather\<close> predicts from for the
  empty request.
\<close>

lemma current_features_defaults:
  "current_features_of \<lparr>main = m, wind = w\<rparr> =
     [case m of None \<Rightarrow> 28 | Some mf \<Rightarrow> (case main_temp mf of None \<Rightarrow> 28 | Some v \<Rightarrow> v),
      case m of None \<Rightarrow> 75 | Some mf \<Rightarrow> (case main_humidity mf of None \<Rightarrow> 75 | Some v \<Rightarrow> v),
      case m of None \<Rightarrow> 1013 | Some mf \<Rightarrow> (case main_pressure mf of None \<Rightarrow> 1013 | Some v \<Rightarrow> v),
      (case w of None \<Rightarrow> 3 | Some wi \<Rightarrow> (case wind_speed wi of None \<Rightarrow> 3 | Some v \<Rightarrow> v))
        * (36 / 10)]
   \<and> current_features_of \<lparr>main = None, wind = None\<rparr> = [28, 75, 1013, 108 / 10]
   \<and> current_features_of
        \<lparr>main = Some \<lparr>main_temp = None, main_humidity = None, main_pressure = None\<rparr>,
         wind = Some \<lparr>wind_speed = None\<rparr>\<rparr> = [28, 75, 1013, 108 / 10]
   \<and> predict_weather s \<lparr>current_weather = None, forecast = None\<rparr> =
       (case predict_temperature s [28, 75, 1013, 108 / 10] of
          Inl e \<Rightarrow> Inl e
        | Inr tp \<Rightarrow> Inr \<lparr>temperature_prediction = tp, forecast_predictions = [],
                         risks = assess_risks tp [28, 75, 1013, 108 / 10] []\<rparr>)"
  by (simp add: current_features_of_def predict_weather_def dict_get_def
      split: option.splits sum.splits)

text \<open>
  The entries of a forecast series are read with plain subscripts instead: there an absent
  key raises.
\<close>

lemma forecast_features_missing_key:
  "forecast_features_of \<lparr>main = None, wind = w\<rparr> = Inl (KeyError ''main'')"
  "forecast_features_of record_without_humidity = Inl (KeyError ''humidity'')"
  "forecast_features_of (entry t) = Inr [t, 60, 1000, 18]"
  by (simp_all add: forecast_features_of_def dict_item_def entry_def record_without_humidity_def)

lemmas weather_defs =
  predict_weather_def current_features_of_def forecast_features_of_def assess_risks_def
  np_mean_def dict_get_def forecast_loop.simps

text \<open>
  Claim C8 does not hold of the code for the entries of a forecast series. A record
  without \<^verbatim>\<open>humidity\<close> sent as the current weather gets the default \<open>75\<close> in its feature
  vector, and the request succeeds; the same record sent as the first entry of the
  forecast series makes the whole request fail with \<^verbatim>\<open>KeyError('humidity')\<close>, where the claim
  has the default substituted rather than a failure.
\<close>

theorem forecast_entry_missing_field_fails:
  "current_features_of record_without_humidity = [30, 75, 1000, 18]
   \<and> predict_weather echo_store
         \<lparr>current_weather = Some record_without_humidity, forecast = None\<rparr>
       = Inr \<lparr>temperature_prediction = \<lparr>temp = 30, confidence = 958 / 10\<rparr>,
              forecast_predictions = [], risks = []\<rparr>
   \<and> predict_weather echo_store
         \<lparr>current_weather = Some record_without_humidity,
          forecast = Some \<lparr>forecast_list = Some [record_without_humidity]\<rparr>\<rparr>
       = Inl (KeyError ''humidity'')"
proof -
  have tp: "predict_temperature echo_store [30, 75, 1000, 18]
              = Inr \<lparr>temp = 30, confidence = 958 / 10\<rparr>"
    by (simp add: predict_defs float_defs round_defs example_defs)
  show ?thesis
    by (simp add: weather_defs tp dict_item_def record_without_humidity_def)
qed

lemma forecast_loop_stop:
  "\<not> i < min 56 (length xs) \<Longrightarrow> forecast_loop s xs i acc = Inr acc"
  by (subst forecast_loop.simps) (simp only: if_False)

lemma forecast_loop_step:
  "i < min 56 (length xs) \<Longrightarrow>
     forecast_loop s xs i acc =
       (case forecast_features_of (xs ! i) of
          Inl e \<Rightarrow> Inl e
        | Inr ff \<Rightarrow>
            (case predict_all s ff of
               Inl e \<Rightarrow> Inl e
             | Inr p \<Rightarrow> forecast_loop s xs (i + 8) (acc @ [p])))"
  by (subst forecast_loop.simps) (simp only: if_True)

lemma forecast_loop_result:
  "forecast_loop s xs i acc = Inr r \<Longrightarrow>
     \<exists>rest. r = acc @ rest
        \<and> length rest = (min 56 (length xs) + 7 - i) div 8
        \<and> (\<forall>k<length rest. \<exists>ff. forecast_features_of (xs ! (i + 8 * k)) = Inr ff
                                    \<and> predict_all s ff = Inr (rest ! k))"
proof (induction s xs i acc arbitrary: r rule: forecast_loop.induct)
  case (1 s xs i acc)
  show ?case
  proof (cases "i < min 56 (length xs)")
    case False
    then have "r = acc" using "1.prems" forecast_loop_stop [OF False, of s acc] by simp
    moreover have "min 56 (length xs) + 7 - i < 8" using False by linarith
    then have "(min 56 (length xs) + 7 - i) div 8 = 0" by (rule div_less)
    ultimately show ?thesis by simp
  next
    case True
    from "1.prems" True obtain ff p
      where ff: "forecast_features_of (xs ! i) = Inr ff"
        and p: "predict_all s ff = Inr p"
        and rec: "forecast_loop s xs (i + 8) (acc @ [p]) = Inr r"
      by (auto simp: forecast_loop_step [OF True] split: sum.splits)
    from "1.IH" [OF True ff p rec] obtain rest
      where r: "r = (acc @ [p]) @ rest"
        and len: "length rest = (min 56 (length xs) + 7 - (i + 8)) div 8"
        and each: "\<forall>k<length rest. \<exists>ff. forecast_features_of (xs ! (i + 8 + 8 * k)) = Inr ff
                                    \<and> predict_all s ff = Inr (rest ! k)"
      by blast
    have "min 56 (length xs) + 7 - i = (min 56 (length xs) + 7 - (i + 8)) + 8"
      using True by linarith
    then have len': "length (p # rest) = (min 56 (length xs) + 7 - i) div 8"
      using len by simp
    have "\<exists>ff. forecast_features_of (xs ! (i + 8 * k)) = Inr ff
               \<and> predict_all s ff = Inr ((p # rest) ! k)" if "k < length (p # rest)" for k
    proof (cases k)
      case 0
      then show ?thesis using ff p by simp
    next
      case (Suc j)
      then have "j < length rest" using that by simp
      then show ?thesis using each Suc by (simp add: add.assoc)
    qed
    then show ?thesis using r len' by (intro exI [of _ "p # rest"]) simp
  qed
qed

lemma forecast_loop_returns:
  assumes "\<forall>j. i \<le> j \<and> j < min 56 (length xs) \<and> (j - i) mod 8 = 0 \<longrightarrow>
             (\<exists>ff b. forecast_features_of (xs ! j) = Inr ff \<and> predict_all s ff = Inr b)"
  shows "\<exists>r. forecast_loop s xs i acc = Inr r"
  using assms
proof (induction s xs i acc rule: forecast_loop.induct)
  case (1 s xs i acc)
  show ?case
  proof (cases "i < min 56 (length xs)")
    case False
    then show ?thesis using forecast_loop_stop [OF False, of s acc] by simp
  next
    case True
    with "1.prems" obtain ff b
      where ff: "forecast_features_of (xs ! i) = Inr ff" and b: "predict_all s ff = Inr b"
      by (metis diff_self_eq_0 le_refl mod_0)
    have "\<forall>j. i + 8 \<le> j \<and> j < min 56 (length xs) \<and> (j - (i + 8)) mod 8 = 0 \<longrightarrow>
             (\<exists>ff b. forecast_features_of (xs ! j) = Inr ff \<and> predict_all s ff = Inr b)"
    proof (intro allI impI)
      fix j
      assume j: "i + 8 \<le> j \<and> j < min 56 (length xs) \<and> (j - (i + 8)) mod 8 = 0"
      then have "(j - i) mod 8 = 0" by presburger
      with j "1.prems" show "\<exists>ff b. forecast_features_of (xs ! j) = Inr ff \<and> predict_all s ff = Inr b"
        by simp
    qed
    from "1.IH" [OF True ff b this] obtain r
      where "forecast_loop s xs (i + 8) (acc @ [b]) = Inr r" by blast
    then show ?thesis using ff b by (simp add: forecast_loop_step [OF True])
  qed
qed

lemma sample_count: "(min 56 n + 7) div 8 = min 7 ((n + 7) div 8)" for n :: nat
  unfolding min_def by presburger

text \<open>
  Claim C9. When a request carries a forecast series \<open>xs\<close> and \<^verbatim>\<open>predict_weather\<close> succeeds,
  \<^verbatim>\<open>forecast_predictions\<close> has \<open>min(7, ceil(len(xs) / 8))\<close> entries, and entry \<open>k\<close> is the
  prediction for \<open>xs[8 * k]\<close>: every 8th entry from index 0, within the first 56. The
  endpoint does succeed when the temperature prediction for the current weather does and
  every sampled entry has its four fields and a prediction.
\<close>

theorem forecast_sampling_every_8th:
  "(\<forall>r. predict_weather s \<lparr>current_weather = cw,
                             forecast = Some \<lparr>forecast_list = Some xs\<rparr>\<rparr> = Inr r \<longrightarrow>
        length (forecast_predictions r) = min 7 ((length xs + 7) div 8)
        \<and> (\<forall>k<length (forecast_predictions r).
              \<exists>ff. forecast_features_of (xs ! (8 * k)) = Inr ff
                  \<and> predict_all s ff = Inr (forecast_predictions r ! k)))
   \<and> ((\<exists>tp. predict_temperature s
               (current_features_of (dict_get cw \<lparr>main = None, wind = None\<rparr>)) = Inr tp)
       \<and> (\<forall>k. 8 * k < min 56 (length xs) \<longrightarrow>
              (\<exists>ff b. forecast_features_of (xs ! (8 * k)) = Inr ff \<and> predict_all s ff = Inr b))
       \<longrightarrow> (\<exists>r. predict_weather s \<lparr>current_weather = cw,
                                     forecast = Some \<lparr>forecast_list = Some xs\<rparr>\<rparr> = Inr r))"
proof -
  have sampled:
    "length (forecast_predictions r) = min 7 ((length xs + 7) div 8)
        \<and> (\<forall>k<length (forecast_predictions r).
              \<exists>ff. forecast_features_of (xs ! (8 * k)) = Inr ff
                  \<and> predict_all s ff = Inr (forecast_predictions r ! k))"
    if "predict_weather s \<lparr>current_weather = cw,
            forecast = Some \<lparr>forecast_list = Some xs\<rparr>\<rparr> = Inr r" for r
  proof -
    from that have "forecast_loop s xs 0 [] = Inr (forecast_predictions r)"
      by (auto simp: predict_weather_def Let_def dict_get_def split: sum.splits)
    from forecast_loop_result [OF this]
    have len: "length (forecast_predictions r) = (min 56 (length xs) + 7) div 8"
      and each: "\<forall>k<length (forecast_predictions r).
                   \<exists>ff. forecast_features_of (xs ! (8 * k)) = Inr ff
                       \<and> predict_all s ff = Inr (forecast_predictions r ! k)"
      by simp_all
    from len have "length (forecast_predictions r) = min 7 ((length xs + 7) div 8)"
      by (simp only: sample_count)
    with each show ?thesis by blast
  qed
  have returns:
    "\<exists>r. predict_weather s \<lparr>current_weather = cw,
                   forecast = Some \<lparr>forecast_list = Some xs\<rparr>\<rparr> = Inr r"
    if tp: "\<exists>tp. predict_temperature s
               (current_features_of (dict_get cw \<lparr>main = None, wind = None\<rparr>)) = Inr tp"
      and a: "\<forall>k. 8 * k < min 56 (length xs) \<longrightarrow>
              (\<exists>ff b. forecast_features_of (xs ! (8 * k)) = Inr ff \<and> predict_all s ff = Inr b)"
  proof -
    have "\<forall>j. 0 \<le> j \<and> j < min 56 (length xs) \<and> (j - 0) mod 8 = 0 \<longrightarrow>
               (\<exists>ff b. forecast_features_of (xs ! j) = Inr ff \<and> predict_all s ff = Inr b)"
    proof (intro allI impI)
      fix j :: nat
      assume j: "0 \<le> j \<and> j < min 56 (length xs) \<and> (j - 0) mod 8 = 0"
      then obtain k where "j = 8 * k" by auto
      with j a show "\<exists>ff b. forecast_features_of (xs ! j) = Inr ff \<and> predict_all s ff = Inr b"
        by blast
    qed
    from forecast_loop_returns [OF this] obtain fps
      where "forecast_loop s xs 0 [] = Inr fps" by blast
    with tp show ?thesis
      by (auto simp: predict_weather_def Let_def dict_get_def)
  qed
  from sampled returns show ?thesis by blast
qed

theorem forecast_sampling_every_8th_witness:
  "length nine_entries = 9
   \<and> (\<exists>r. predict_weather echo_store
             \<lparr>current_weather = None,
              forecast = Some \<lparr>forecast_list = Some nine_entries\<rparr>\<rparr> = Inr r
         \<and> length (forecast_predictions r) = 2
         \<and> map (\<lambda>b. temp (temperature b)) (forecast_predictions r) = [10, 18])"
proof -
  have tp: "predict_temperature echo_store [28, 75, 1013, 54 / 5]
              = Inr \<lparr>temp = 28, confidence = 958 / 10\<rparr>"
    by (simp add: predict_defs float_defs round_defs example_defs)
  have p0: "predict_all echo_store [10, 60, 1000, 18]
              = Inr \<lparr>temperature = \<lparr>temp = 10, confidence = 958 / 10\<rparr>,
                     humidity = 60, rainfall = 18, aqi = 1000\<rparr>"
    by (simp add: predict_defs float_defs round_defs example_defs)
  have p8: "predict_all echo_store [18, 60, 1000, 18]
              = Inr \<lparr>temperature = \<lparr>temp = 18, confidence = 958 / 10\<rparr>,
                     humidity = 60, rainfall = 18, aqi = 1000\<rparr>"
    by (simp add: predict_defs float_defs round_defs example_defs)
  have "\<exists>r. predict_weather echo_store
             \<lparr>current_weather = None,
              forecast = Some \<lparr>forecast_list = Some nine_entries\<rparr>\<rparr> = Inr r
         \<and> map (\<lambda>b. temp (temperature b)) (forecast_predictions r) = [10, 18]"
    by (simp add: weather_defs tp p0 p8 dict_item_def nine_entries_def entry_def Let_def)
  then obtain r where r: "predict_weather echo_store
             \<lparr>current_weather = None,
              forecast = Some \<lparr>forecast_list = Some nine_entries\<rparr>\<rparr> = Inr r"
    and m: "map (\<lambda>b. temp (temperature b)) (forecast_predictions r) = [10, 18]"
    by auto
  have "length (forecast_predictions r) = min 7 ((length nine_entries + 7) div 8)"
    using forecast_sampling_every_8th [of echo_store None nine_entries] r by blast
  moreover have "length nine_entries = 9" by (simp add: nine_entries_def)
  ultimately show ?thesis using r m by simp
qed

section \<open>Crop advisor\<close>

lemma score_component_bounds:
  assumes "score_component r v k = Inr s" "0 \<le> k"
  shows "0 \<le> s \<and> s \<le> 100"
  using assms
  by (auto simp: score_component_def split: sum.splits if_splits npfloat.splits
      intro: mult_nonneg_nonneg)

lemma score_component_returns:
  assumes "2 \<le> length r"
  shows "\<exists>s. score_component r v k = Inr s"
  using assms
  by (auto simp: score_component_def py_index_def np_mean_def split: sum.splits if_splits npfloat.splits)

lemmas crop_defs =
  get_crop_recommendations_def temperature_analysis_def humidity_analysis_def
  calculate_compatibility_score_def score_component_def crop_requirements_def
  dict_get_def dict_item_def py_index_def np_mean_def py_round_def round_half_even_def

text \<open>
  Claim C5. For rice at \<open>28\<close> degrees and \<open>75\<close> percent humidity both recommendations are of
  type success and the compatibility score is \<open>100\<close>.
\<close>

theorem rice_28_75_all_success:
  "get_crop_recommendations
     \<lparr>crop_type = Some ''rice'',
      weather_data = Some \<lparr>wd_temp = Some 28, wd_humidity = Some 75\<rparr>\<rparr> =
   Inr \<lparr>resp_crop_type = ''rice'',
        recommendations =
          [\<lparr>rec_type = ''success'', parameter = ''temperature'',
            rec_message = Plain ''Temperature is within optimal range'',
            action = ''Continue normal operations''\<rparr>,
           \<lparr>rec_type = ''success'', parameter = ''humidity'',
            rec_message = Plain ''Humidity levels are optimal'',
            action = ''Maintain current irrigation schedule''\<rparr>],
        compatibility_score = 100\<rparr>"
  by (simp add: crop_defs)

text \<open>
  Claim C6. For wheat at \<open>28\<close> degrees and \<open>75\<close> percent humidity the temperature
  recommendation is critical and the humidity recommendation is a warning; the score is the
  average, rounded to one decimal place, of \<open>max(0, 100 - |28 - 18.5| * 10)\<close> and
  \<open>max(0, 100 - |75 - 60| * 5)\<close>, which is \<open>15\<close>.
\<close>

theorem wheat_28_75_critical_warning:
  "\<exists>r. get_crop_recommendations
         \<lparr>crop_type = Some ''wheat'',
          weather_data = Some \<lparr>wd_temp = Some 28, wd_humidity = Some 75\<rparr>\<rparr> = Inr r
     \<and> map parameter (recommendations r) = [''temperature'', ''humidity'']
     \<and> map rec_type (recommendations r) = [''critical'', ''warning'']
     \<and> compatibility_score r =
         py_round ((max 0 (100 - \<bar>28 - (12 + 25) / 2\<bar> * 10)
                    + max 0 (100 - \<bar>75 - (50 + 70) / 2\<bar> * 5)) / 2) 1
     \<and> compatibility_score r = 15"
  by (simp add: crop_defs)

lemma temperature_analysis_returns:
  assumes "2 \<le> length (temp_range requirements)"
  shows "\<exists>t. temperature_analysis x requirements = Inr t"
  using assms by (auto simp: temperature_analysis_def py_index_def)

lemma humidity_analysis_returns:
  assumes "2 \<le> length (humidity_range requirements)"
  shows "\<exists>h. humidity_analysis x requirements = Inr h"
  using assms by (auto simp: humidity_analysis_def py_index_def)

text \<open>
  Claim C7. For a crop type that is not a key of the requirements table, the endpoint
  returns a success response (no exception), with the recommendations and the
  compatibility score it returns for rice on the same weather data.
\<close>

theorem unknown_crop_falls_back_to_rice:
  assumes "crop \<notin> set (map fst crop_requirements)"
  shows "\<exists>r r'. get_crop_recommendations \<lparr>crop_type = Some crop, weather_data = wd\<rparr> = Inr r
           \<and> get_crop_recommendations \<lparr>crop_type = Some ''rice'', weather_data = wd\<rparr> = Inr r'
           \<and> recommendations r = recommendations r'
           \<and> compatibility_score r = compatibility_score r'"
proof -
  have none: "map_of crop_requirements crop = None"
    using assms by (simp add: map_of_eq_None_iff)
  obtain rice where rice: "map_of crop_requirements ''rice'' = Some rice"
    and tr: "temp_range rice = [20, 35]" and hr: "humidity_range rice = [70, 90]"
    by (simp add: crop_requirements_def)
  let ?t = "dict_get (wd_temp (dict_get wd \<lparr>wd_temp = None, wd_humidity = None\<rparr>)) 28"
  let ?h = "dict_get (wd_humidity (dict_get wd \<lparr>wd_temp = None, wd_humidity = None\<rparr>)) 75"
  obtain t where t: "temperature_analysis ?t rice = Inr t"
    using temperature_analysis_returns [of rice] by (auto simp: tr)
  obtain h where h: "humidity_analysis ?h rice = Inr h"
    using humidity_analysis_returns [of rice] by (auto simp: hr)
  obtain ts where ts: "score_component (temp_range rice) ?t 10 = Inr ts"
    using score_component_returns [of "temp_range rice"] by (auto simp: tr)
  obtain hs where hs: "score_component (humidity_range rice) ?h 5 = Inr hs"
    using score_component_returns [of "humidity_range rice"] by (auto simp: hr)
  have c: "calculate_compatibility_score ?t ?h rice = Inr (py_round ((ts + hs) / 2) 1)"
    by (simp add: calculate_compatibility_score_def ts hs)
  show ?thesis
    by (simp add: get_crop_recommendations_def Let_def none rice t h c dict_get_def [of "Some _"]
        dict_get_def [of None] dict_item_def)
qed

theorem unknown_crop_falls_back_to_rice_witness:
  "''maize'' \<notin> set (map fst crop_requirements)
   \<and> (\<exists>r r'. get_crop_recommendations
                \<lparr>crop_type = Some ''maize'',
                 weather_data = Some \<lparr>wd_temp = Some 40, wd_humidity = Some 60\<rparr>\<rparr> = Inr r
           \<and> get_crop_recommendations
                \<lparr>crop_type = Some ''rice'',
                 weather_data = Some \<lparr>wd_temp = Some 40, wd_humidity = Some 60\<rparr>\<rparr> = Inr r'
           \<and> recommendations r = recommendations r'
           \<and> compatibility_score r = compatibility_score r')"
proof -
  have h: "''maize'' \<notin> set (map fst crop_requirements)"
    by (simp add: crop_requirements_def)
  show ?thesis
    using h unknown_crop_falls_back_to_rice [OF h] by simp
qed

text \<open>
  Claim C10. Whatever the temperature, the humidity and the requirements,
  a score returned by \<^verbatim>\<open>calculate_compatibility_score\<close> lies between \<open>0\<close> and \<open>100\<close>; and a
  score is returned whenever both ranges have their two bounds.
\<close>

theorem compatibility_score_in_0_100:
  "(\<forall>v. calculate_compatibility_score t h requirements = Inr v \<longrightarrow> 0 \<le> v \<and> v \<le> 100)
   \<and> (2 \<le> length (temp_range requirements) \<and> 2 \<le> length (humidity_range requirements)
        \<longrightarrow> (\<exists>v. calculate_compatibility_score t h requirements = Inr v))"
proof (intro conjI allI impI)
  fix v
  assume "calculate_compatibility_score t h requirements = Inr v"
  then obtain ts hs
    where ts: "score_component (temp_range requirements) t 10 = Inr ts"
      and hs: "score_component (humidity_range requirements) h 5 = Inr hs"
      and v: "v = py_round ((ts + hs) / 2) 1"
    by (auto simp: calculate_compatibility_score_def split: sum.splits)
  have "0 \<le> ts \<and> ts \<le> 100" using score_component_bounds [OF ts] by simp
  moreover have "0 \<le> hs \<and> hs \<le> 100" using score_component_bounds [OF hs] by simp
  ultimately have "0 \<le> (ts + hs) / 2" "(ts + hs) / 2 \<le> of_int 100" by simp_all
  then show "0 \<le> v" "v \<le> 100"
    using py_round_bounds [of "(ts + hs) / 2" 100 1] v by simp_all
next
  assume "2 \<le> length (temp_range requirements) \<and> 2 \<le> length (humidity_range requirements)"
  then obtain ts hs
    where "score_component (temp_range requirements) t 10 = Inr ts"
      and "score_component (humidity_range requirements) h 5 = Inr hs"
    using score_component_returns by blast
  then show "\<exists>v. calculate_compatibility_score t h requirements = Inr v"
    by (simp add: calculate_compatibility_score_def)
qed

theorem compatibility_score_in_0_100_witness:
  "calculate_compatibility_score 50 10
     \<lparr>temp_range = [12, 25], humidity_range = [50, 70], optimal_rainfall = [500, 750]\<rparr> = Inr 0
   \<and> calculate_compatibility_score 26 45
     \<lparr>temp_range = [12, 25], humidity_range = [50, 70], optimal_rainfall = [500, 750]\<rparr>
       = Inr 25
   \<and> (0::rat) \<le> 25 \<and> (25::rat) \<le> 100"
  using compatibility_score_in_0_100 [of 26 45
     "\<lparr>temp_range = [12, 25], humidity_range = [50, 70], optimal_rainfall = [500, 750]\<rparr>"]
  by (simp add: crop_defs)

end
